theory Spec2Isabelle
  imports Main "HOL-Library.Char_ord" "HOL-Library.List_Lexorder" "HOL-Library.Word"
begin

section \<open>Go values and the standard-library functions the connectors call\<close>

text \<open>
  A Go \<open>string\<close> and a \<open>[]byte\<close> are byte sequences: both are \<open>char list\<close> here
  (an Isabelle \<open>char\<close> is one byte). Strings are compared bytewise and lexicographically,
  which is the order of \<open>HOL-Library.List_Lexorder\<close> over \<open>HOL-Library.Char_ord\<close>.
  An error value produced by the standard library is identified by its message.
\<close>

type_synonym bytes = string
type_synonym lib_error = string

text \<open>\<open>encoding/hex\<close>: \<open>EncodeToString\<close> writes two lower-case digits per byte.
  The index is below 16 because a byte is below 256.\<close>

definition hextable :: string where
  "hextable = ''0123456789abcdef''"

definition hex_EncodeToString :: "bytes \<Rightarrow> string" where
  "hex_EncodeToString src =
     concat (map (\<lambda>b. [hextable ! (of_char b div 16), hextable ! (of_char b mod 16)]) src)"

text \<open>\<open>strconv.FormatInt(i, 10)\<close> and \<open>fmt.Sprintf("%d", i)\<close>: the decimal digits, with a
  leading minus sign for a negative number. The index into \<open>digits\<close> is below 10.\<close>

definition digits :: string where
  "digits = ''0123456789''"

fun decimal_digits :: "nat \<Rightarrow> string" where
  "decimal_digits n =
     (if n < 10 then [digits ! n]
      else decimal_digits (n div 10) @ [digits ! (n mod 10)])"

definition FormatInt :: "int \<Rightarrow> string" where
  "FormatInt i = (if i < 0 then CHR ''-'' # decimal_digits (nat (- i)) else decimal_digits (nat i))"

text \<open>\<open>net/url\<close>: \<open>QueryEscape\<close>. In query-component mode only letters, digits and
  \<open>- _ . ~\<close> stay as they are; a space becomes \<open>+\<close>; every other byte becomes \<open>%XX\<close> with
  upper-case hexadecimal digits.\<close>

definition shouldEscape :: "char \<Rightarrow> bool" where
  "shouldEscape c =
     (if (CHR ''a'' \<le> c \<and> c \<le> CHR ''z'') \<or> (CHR ''A'' \<le> c \<and> c \<le> CHR ''Z'')
          \<or> (CHR ''0'' \<le> c \<and> c \<le> CHR ''9'') then False
      else if c \<in> {CHR ''-'', CHR ''_'', CHR ''.'', CHR ''~''} then False
      else True)"

definition upperhex :: string where
  "upperhex = ''0123456789ABCDEF''"

definition escape_byte :: "char \<Rightarrow> string" where
  "escape_byte c =
     (if shouldEscape c then
        (if c = CHR '' '' then ''+''
         else [CHR ''%'', upperhex ! (of_char c div 16), upperhex ! (of_char c mod 16)])
      else [c])"

definition QueryEscape :: "string \<Rightarrow> string" where
  "QueryEscape s = concat (map escape_byte s)"

text \<open>A Go map has no iteration order of its own: \<open>range\<close> yields the keys in an order
  that changes from run to run. A \<open>map[string]string\<close> is an association list with distinct
  keys, whose order is the order in which \<open>range\<close> happens to yield the entries; indexing a
  missing key gives the zero value, the empty string. A nil map and an empty map are both
  the empty list (the code only ranges over, measures and indexes its maps).\<close>

type_synonym string_map = "(string \<times> string) list"

definition map_index :: "string_map \<Rightarrow> string \<Rightarrow> string" where
  "map_index params k = (case map_of params k of None \<Rightarrow> [] | Some v \<Rightarrow> v)"

text \<open>\<open>url.Values\<close> is a \<open>map[string][]string\<close>. \<open>Values.Encode\<close> collects the keys,
  sorts them, and writes \<open>key=value\<close> for every value of every key, with \<open>&\<close> before each
  pair but the first (the builder is empty only before the first pair).\<close>

type_synonym url_Values = "(string \<times> string list) list"

definition values_index :: "url_Values \<Rightarrow> string \<Rightarrow> string list" where
  "values_index v k = (case map_of v k of None \<Rightarrow> [] | Some vs \<Rightarrow> vs)"

fun encode_values :: "string \<Rightarrow> string list \<Rightarrow> string \<Rightarrow> string" where
  "encode_values keyEscaped [] buf = buf"
| "encode_values keyEscaped (x # vs) buf =
     encode_values keyEscaped vs
       ((if length buf > 0 then buf @ ''&'' else buf) @ keyEscaped @ ''='' @ QueryEscape x)"

fun encode_keys :: "url_Values \<Rightarrow> string list \<Rightarrow> string \<Rightarrow> string" where
  "encode_keys v [] buf = buf"
| "encode_keys v (k # keys) buf =
     encode_keys v keys (encode_values (QueryEscape k) (values_index v k) buf)"

definition Values_Encode :: "url_Values \<Rightarrow> string" where
  "Values_Encode v = (if length v = 0 then [] else encode_keys v (sort (map fst v)) [])"

text \<open>\<open>net/http\<close>: a header is a map from canonical keys to value lists.
  \<open>Header.Set\<close> and \<open>Header.Get\<close> canonicalise the key first
  (\<open>textproto.CanonicalMIMEHeaderKey\<close>): when every byte is a token byte, the first letter
  and each letter after a hyphen become upper case and the others lower case; a key with
  any other byte is left as it is.\<close>

definition validHeaderFieldByte :: "char \<Rightarrow> bool" where
  "validHeaderFieldByte c =
     ((CHR ''a'' \<le> c \<and> c \<le> CHR ''z'') \<or> (CHR ''A'' \<le> c \<and> c \<le> CHR ''Z'')
      \<or> (CHR ''0'' \<le> c \<and> c \<le> CHR ''9'')
      \<or> c \<in> set ''!#$%&*+-.^_`|~'' \<or> c = CHR 0x27)"

fun canonical_bytes :: "bool \<Rightarrow> string \<Rightarrow> string" where
  "canonical_bytes upper [] = []"
| "canonical_bytes upper (c # cs) =
     (let c' = (if upper \<and> CHR ''a'' \<le> c \<and> c \<le> CHR ''z'' then char_of (of_char c - (32::nat))
                else if \<not> upper \<and> CHR ''A'' \<le> c \<and> c \<le> CHR ''Z'' then char_of (of_char c + (32::nat))
                else c)
      in c' # canonical_bytes (c' = CHR ''-'') cs)"

definition CanonicalMIMEHeaderKey :: "string \<Rightarrow> string" where
  "CanonicalMIMEHeaderKey s = (if list_all validHeaderFieldByte s then canonical_bytes True s else s)"

type_synonym http_Header = "string \<rightharpoonup> string list"

definition Header_Set :: "http_Header \<Rightarrow> string \<Rightarrow> string \<Rightarrow> http_Header" where
  "Header_Set h key v = h(CanonicalMIMEHeaderKey key \<mapsto> [v])"

definition Header_Get :: "http_Header \<Rightarrow> string \<Rightarrow> string" where
  "Header_Get h key =
     (case h (CanonicalMIMEHeaderKey key) of None \<Rightarrow> [] | Some [] \<Rightarrow> [] | Some (v # _) \<Rightarrow> v)"

text \<open>An outgoing request as the transport sees it. \<open>req_body\<close> is the body reader handed
  to \<open>http.NewRequestWithContext\<close>: \<open>None\<close> is the nil reader, \<open>Some b\<close> a reader over the
  bytes \<open>b\<close>. \<open>wire_body\<close> is what reading it to the end yields.\<close>

record http_Request =
  req_method :: string
  req_url :: string
  req_header :: http_Header
  req_body :: "bytes option"

definition wire_body :: "http_Request \<Rightarrow> bytes" where
  "wire_body req = (case req_body req of None \<Rightarrow> [] | Some b \<Rightarrow> b)"

text \<open>A response: the status code and what \<open>io.ReadAll(resp.Body)\<close> returns.\<close>

record http_Response =
  StatusCode :: int
  Body :: "lib_error + bytes"

text \<open>\<open>http.Client.Do\<close>: the transport, an error or a response for each request.\<close>

type_synonym transport = "http_Request \<Rightarrow> lib_error + http_Response"

text \<open>The library functions whose results the connectors only pass on are parameters
  of the model: the SHA-512 digest (\<open>sha512.New\<close>, \<open>Write\<close>, \<open>Sum(nil)\<close>), HMAC with a key
  over a message (\<open>hmac.New(h, key)\<close>, \<open>Write\<close>, \<open>Sum(nil)\<close>), \<open>json.Marshal\<close> of a payload
  of type \<open>'p\<close>, \<open>json.Unmarshal\<close> into each of the types the dispatchers decode into (a
  caller's target is described by a value of type \<open>'t\<close> and decodes to a \<open>'v\<close>), the checks
  of \<open>http.NewRequestWithContext\<close> on the method and the URL, and the clock. Every theorem
  below holds for every choice of them.\<close>

record APIError =
  Label :: string
  Message :: string

record CommonResponse =
  ReturnCode :: int
  MsgInfo :: string
  Error :: bytes

record ('p, 't, 'v) go_env =
  sha512_Sum :: "bytes \<Rightarrow> bytes"
  hmac_sha512 :: "bytes \<Rightarrow> bytes \<Rightarrow> bytes"
  hmac_sha256 :: "bytes \<Rightarrow> bytes \<Rightarrow> bytes"
  json_Marshal :: "'p \<Rightarrow> lib_error + bytes"
  json_Unmarshal_APIError :: "bytes \<Rightarrow> lib_error + APIError"
  json_Unmarshal_CommonResponse :: "bytes \<Rightarrow> lib_error + CommonResponse"
  json_Unmarshal_target :: "'t \<Rightarrow> bytes \<Rightarrow> lib_error + 'v"
  http_NewRequest_error :: "string \<Rightarrow> string \<Rightarrow> lib_error option"
  time_Now_Unix :: int
  time_Now_UnixMilli :: int

text \<open>\<open>http.NewRequestWithContext\<close>: an error, or a request with the method (GET when
  the method is empty), the URL, no header and the body reader.\<close>

definition http_NewRequestWithContext ::
  "('p, 't, 'v) go_env \<Rightarrow> string \<Rightarrow> string \<Rightarrow> bytes option \<Rightarrow> lib_error + http_Request" where
  "http_NewRequestWithContext env meth url body =
     (case http_NewRequest_error env meth url of
        Some err \<Rightarrow> Inl err
      | None \<Rightarrow> Inr \<lparr>req_method = (if meth = [] then ''GET'' else meth), req_url = url,
                     req_header = Map.empty, req_body = body\<rparr>)"

text \<open>What a call leaves behind: the requests handed to the transport, in order (what a
  transport spy records), and the value returned: an error, or nil together with what was
  decoded into the caller's target (\<open>None\<close> when the target is nil).\<close>

record ('e, 'v) outcome =
  transport_calls :: "http_Request list"
  returned :: "'e + 'v option"

section \<open>The Gate.io client\<close>

definition defaultBaseURL :: string where
  "defaultBaseURL = ''https://api.gateio.ws''"

definition apiPrefix :: string where
  "apiPrefix = ''/api/v4''"

record gateio_Client =
  gateio_apiKey :: string
  gateio_secretKey :: string
  gateio_baseURL :: string
  gateio_httpClient :: transport

text \<open>\<open>NewClient\<close>; \<open>network\<close> is the default client (ten seconds of timeout) used when
  the caller passes nil.\<close>

definition gateio_NewClient :: "transport \<Rightarrow> string \<Rightarrow> string \<Rightarrow> transport option \<Rightarrow> gateio_Client" where
  "gateio_NewClient network apiKey secretKey httpClient =
     \<lparr>gateio_apiKey = apiKey, gateio_secretKey = secretKey, gateio_baseURL = defaultBaseURL,
      gateio_httpClient = (case httpClient of None \<Rightarrow> network | Some t \<Rightarrow> t)\<rparr>"

text \<open>The errors \<open>sendRequest\<close> returns, one constructor for each \<open>return\<close> of an error in
  the function, and the message of each.\<close>

datatype gateio_error =
    Gateio_MarshalFailed lib_error
  | Gateio_CreateRequestFailed lib_error
  | Gateio_MissingCredentials
  | Gateio_SendFailed lib_error
  | Gateio_ReadBodyFailed lib_error
  | Gateio_APIError APIError
  | Gateio_StatusError int bytes
  | Gateio_UnmarshalTargetFailed lib_error bytes

fun gateio_error_message :: "gateio_error \<Rightarrow> string" where
  "gateio_error_message (Gateio_MarshalFailed err) = ''failed to marshal request body: '' @ err"
| "gateio_error_message (Gateio_CreateRequestFailed err) = ''failed to create request: '' @ err"
| "gateio_error_message Gateio_MissingCredentials =
     ''API key and secret key must be provided for private endpoints''"
| "gateio_error_message (Gateio_SendFailed err) = ''failed to send request: '' @ err"
| "gateio_error_message (Gateio_ReadBodyFailed err) = ''failed to read response body: '' @ err"
| "gateio_error_message (Gateio_APIError e) = ''Gate.io API Error: '' @ Label e @ '' - '' @ Message e"
| "gateio_error_message (Gateio_StatusError status body) =
     ''API error: status '' @ FormatInt status @ '', body: '' @ body"
| "gateio_error_message (Gateio_UnmarshalTargetFailed err body) =
     ''failed to unmarshal response body into target: '' @ err @ '' (body: '' @ body @ '')''"

text \<open>\<open>generateSignature\<close> (Gate.io).\<close>

definition gateio_generateSignature ::
  "('p, 't, 'v) go_env \<Rightarrow> gateio_Client \<Rightarrow> string \<Rightarrow> string \<Rightarrow> string \<Rightarrow> string \<Rightarrow> string \<Rightarrow> string" where
  "gateio_generateSignature env c meth path query body timestamp =
     (let hashedPayload = hex_EncodeToString (sha512_Sum env body);
          signStr = meth @ ''\<newline>'' @ path @ ''\<newline>'' @ query @ ''\<newline>'' @ hashedPayload
                      @ ''\<newline>'' @ timestamp;
          signature = hex_EncodeToString (hmac_sha512 env (gateio_secretKey c) signStr)
      in signature)"

text \<open>\<open>sendRequest\<close> (Gate.io) follows, in the order of the source. "Prepare Body": the
  body reader and the bytes that will be hashed.\<close>

definition gateio_prepareBody ::
  "('p, 't, 'v) go_env \<Rightarrow> 'p option \<Rightarrow> gateio_error + (bytes option \<times> bytes)" where
  "gateio_prepareBody env bodyPayload =
     (case bodyPayload of
        Some p \<Rightarrow>
          (case json_Marshal env p of
             Inl err \<Rightarrow> Inl (Gateio_MarshalFailed err)
           | Inr bodyBytes \<Rightarrow> Inr (Some bodyBytes, bodyBytes))
      | None \<Rightarrow> Inr (None, []))"

text \<open>"Add Authentication Headers if private".\<close>

definition gateio_authenticate ::
  "('p, 't, 'v) go_env \<Rightarrow> gateio_Client \<Rightarrow> bool \<Rightarrow> string \<Rightarrow> string \<Rightarrow> string \<Rightarrow> bytes \<Rightarrow>
     http_Request \<Rightarrow> gateio_error + http_Request" where
  "gateio_authenticate env c isPrivate meth endpointPath queryString bodyBytes req =
     (if isPrivate then
        (if gateio_apiKey c = [] \<or> gateio_secretKey c = [] then Inl Gateio_MissingCredentials
         else
           (let timestamp = FormatInt (time_Now_Unix env);
                signature = gateio_generateSignature env c meth (apiPrefix @ endpointPath)
                              queryString bodyBytes timestamp;
                h1 = Header_Set (req_header req) ''KEY'' (gateio_apiKey c);
                h2 = Header_Set h1 ''Timestamp'' timestamp;
                h3 = Header_Set h2 ''SIGN'' signature
            in Inr (req\<lparr>req_header := h3\<rparr>)))
      else Inr req)"

text \<open>"Read Response Body", "Handle Errors", "Unmarshal Success Response".\<close>

definition gateio_handleResponse ::
  "('p, 't, 'v) go_env \<Rightarrow> http_Response \<Rightarrow> 't option \<Rightarrow> gateio_error + 'v option" where
  "gateio_handleResponse env resp target =
     (case Body resp of
        Inl err \<Rightarrow> Inl (Gateio_ReadBodyFailed err)
      | Inr responseBody \<Rightarrow>
          (if StatusCode resp \<ge> 400 then
             (case json_Unmarshal_APIError env responseBody of
                Inr apiErr \<Rightarrow>
                  (if Label apiErr \<noteq> [] then Inl (Gateio_APIError apiErr)
                   else Inl (Gateio_StatusError (StatusCode resp) responseBody))
              | Inl err \<Rightarrow> Inl (Gateio_StatusError (StatusCode resp) responseBody))
           else
             (case target of
                Some t \<Rightarrow>
                  (case json_Unmarshal_target env t responseBody of
                     Inl err \<Rightarrow> Inl (Gateio_UnmarshalTargetFailed err responseBody)
                   | Inr v \<Rightarrow> Inr (Some v))
              | None \<Rightarrow> Inr None)))"

text \<open>The part of \<open>sendRequest\<close> before "Send Request": "Prepare URL", "Prepare Body",
  "Create Request", "Set Headers" and the authentication headers. It returns the error
  \<open>sendRequest\<close> returns from there, or the request handed to the transport.\<close>

definition gateio_buildRequest ::
  "('p, 't, 'v) go_env \<Rightarrow> gateio_Client \<Rightarrow> string \<Rightarrow> string \<Rightarrow> url_Values option \<Rightarrow> 'p option \<Rightarrow>
     gateio_error + http_Request" where
  "gateio_buildRequest env c meth endpointPath queryParams bodyPayload =
     (let isPrivate = (gateio_apiKey c \<noteq> [] \<and> gateio_secretKey c \<noteq> []);
          queryString = (case queryParams of None \<Rightarrow> [] | Some v \<Rightarrow> Values_Encode v);
          fullURL = (if queryString \<noteq> []
                     then gateio_baseURL c @ apiPrefix @ endpointPath @ ''?'' @ queryString
                     else gateio_baseURL c @ apiPrefix @ endpointPath)
      in case gateio_prepareBody env bodyPayload of
           Inl err \<Rightarrow> Inl err
         | Inr (bodyReader, bodyBytes) \<Rightarrow>
             (case http_NewRequestWithContext env meth fullURL bodyReader of
                Inl err \<Rightarrow> Inl (Gateio_CreateRequestFailed err)
              | Inr req0 \<Rightarrow>
                  (let h1 = Header_Set (req_header req0) ''Accept'' ''application/json'';
                       h2 = (if meth = ''POST'' \<or> meth = ''PUT'' \<or> meth = ''DELETE''
                             then Header_Set h1 ''Content-Type'' ''application/json'' else h1)
                   in gateio_authenticate env c isPrivate meth endpointPath queryString
                        bodyBytes (req0\<lparr>req_header := h2\<rparr>))))"

text \<open>\<open>sendRequest\<close> (Gate.io): an error before "Send Request" leaves the transport
  untouched; otherwise the request goes to \<open>c.httpClient.Do\<close> once and the response is
  handled.\<close>

definition gateio_sendRequest ::
  "('p, 't, 'v) go_env \<Rightarrow> gateio_Client \<Rightarrow> string \<Rightarrow> string \<Rightarrow> url_Values option \<Rightarrow> 'p option \<Rightarrow>
     't option \<Rightarrow> (gateio_error, 'v) outcome" where
  "gateio_sendRequest env c meth endpointPath queryParams bodyPayload target =
     (case gateio_buildRequest env c meth endpointPath queryParams bodyPayload of
        Inl err \<Rightarrow> \<lparr>transport_calls = [], returned = Inl err\<rparr>
      | Inr req \<Rightarrow>
          (case gateio_httpClient c req of
             Inl err \<Rightarrow> \<lparr>transport_calls = [req], returned = Inl (Gateio_SendFailed err)\<rparr>
           | Inr resp \<Rightarrow>
               \<lparr>transport_calls = [req], returned = gateio_handleResponse env resp target\<rparr>))"

text \<open>The helpers the endpoint wrappers call.\<close>

definition gateio_get ::
  "('p, 't, 'v) go_env \<Rightarrow> gateio_Client \<Rightarrow> string \<Rightarrow> url_Values option \<Rightarrow> 't option \<Rightarrow>
     (gateio_error, 'v) outcome" where
  "gateio_get env c endpointPath params target =
     gateio_sendRequest env c ''GET'' endpointPath params None target"

definition gateio_post ::
  "('p, 't, 'v) go_env \<Rightarrow> gateio_Client \<Rightarrow> string \<Rightarrow> url_Values option \<Rightarrow> 'p option \<Rightarrow> 't option \<Rightarrow>
     (gateio_error, 'v) outcome" where
  "gateio_post env c endpointPath params payload target =
     gateio_sendRequest env c ''POST'' endpointPath params payload target"

definition gateio_delete ::
  "('p, 't, 'v) go_env \<Rightarrow> gateio_Client \<Rightarrow> string \<Rightarrow> url_Values option \<Rightarrow> 'p option \<Rightarrow> 't option \<Rightarrow>
     (gateio_error, 'v) outcome" where
  "gateio_delete env c endpointPath params payload target =
     gateio_sendRequest env c ''DELETE'' endpointPath params payload target"

definition gateio_put ::
  "('p, 't, 'v) go_env \<Rightarrow> gateio_Client \<Rightarrow> string \<Rightarrow> url_Values option \<Rightarrow> 'p option \<Rightarrow> 't option \<Rightarrow>
     (gateio_error, 'v) outcome" where
  "gateio_put env c endpointPath params payload target =
     gateio_sendRequest env c ''PUT'' endpointPath params payload target"

section \<open>The XT.com client\<close>

definition defaultUsdtBaseURL :: string where
  "defaultUsdtBaseURL = ''https://fapi.xt.com''"

definition defaultCoinBaseURL :: string where
  "defaultCoinBaseURL = ''https://dapi.xt.com''"

definition defaultRecvWindow :: string where
  "defaultRecvWindow = ''5000''"

record xt_Client =
  xt_apiKey :: string
  xt_secretKey :: string
  xt_usdtBaseURL :: string
  xt_coinBaseURL :: string
  xt_httpClient :: transport
  xt_recvWindow :: string

definition xt_NewClient :: "transport \<Rightarrow> string \<Rightarrow> string \<Rightarrow> transport option \<Rightarrow> xt_Client" where
  "xt_NewClient network apiKey secretKey httpClient =
     \<lparr>xt_apiKey = apiKey, xt_secretKey = secretKey, xt_usdtBaseURL = defaultUsdtBaseURL,
      xt_coinBaseURL = defaultCoinBaseURL,
      xt_httpClient = (case httpClient of None \<Rightarrow> network | Some t \<Rightarrow> t),
      xt_recvWindow = defaultRecvWindow\<rparr>"

text \<open>\<open>SetRecvWindow(ms int64)\<close>: the 64-bit argument is read as a signed number.\<close>

definition SetRecvWindow :: "xt_Client \<Rightarrow> 64 word \<Rightarrow> xt_Client" where
  "SetRecvWindow c ms = c\<lparr>xt_recvWindow := FormatInt (sint ms)\<rparr>"

definition getBaseURL :: "xt_Client \<Rightarrow> string \<Rightarrow> string" where
  "getBaseURL c underlyingType = xt_usdtBaseURL c"

datatype xt_error =
    XT_MarshalFailed lib_error
  | XT_CreateRequestFailed lib_error
  | XT_MissingCredentials
  | XT_SendFailed lib_error
  | XT_ReadBodyFailed lib_error
  | XT_UnmarshalBasicFailed lib_error bytes
  | XT_APIError int string bytes
  | XT_UnmarshalTargetFailed lib_error bytes

fun xt_error_message :: "xt_error \<Rightarrow> string" where
  "xt_error_message (XT_MarshalFailed err) = ''failed to marshal request body to JSON: '' @ err"
| "xt_error_message (XT_CreateRequestFailed err) = ''failed to create request: '' @ err"
| "xt_error_message XT_MissingCredentials =
     ''API key and secret key must be provided for private endpoints''"
| "xt_error_message (XT_SendFailed err) = ''failed to send request: '' @ err"
| "xt_error_message (XT_ReadBodyFailed err) = ''failed to read response body: '' @ err"
| "xt_error_message (XT_UnmarshalBasicFailed err body) =
     ''failed to unmarshal basic response structure: '' @ err @ '' (body: '' @ body @ '')''"
| "xt_error_message (XT_APIError code msg raw) =
     ''XT API error: code='' @ FormatInt code @ '', msg='' @ msg @ '', error='' @ raw"
| "xt_error_message (XT_UnmarshalTargetFailed err body) =
     ''failed to unmarshal response body into target: '' @ err @ '' (body: '' @ body @ '')''"

text \<open>\<open>generateSignature\<close> (XT.com). The receiver's \<open>recvWindow\<close> is not read: the two
  lines that would use it are comments in the source.\<close>

definition xt_generateSignature ::
  "('p, 't, 'v) go_env \<Rightarrow> xt_Client \<Rightarrow> string \<Rightarrow> string \<Rightarrow> string \<Rightarrow> string \<Rightarrow> string" where
  "xt_generateSignature env c timestamp path sortedQuery bodyString =
     (let headerPart = ''validate-appkey='' @ xt_apiKey c @ ''&validate-timestamp='' @ timestamp;
          dataPart0 = ''#'' @ path;
          dataPart1 = (if sortedQuery \<noteq> [] then dataPart0 @ ''#'' @ sortedQuery else dataPart0);
          dataPart = (if bodyString \<noteq> [] then dataPart1 @ ''#'' @ bodyString else dataPart1);
          signStr = headerPart @ dataPart;
          signature = hex_EncodeToString (hmac_sha256 env (xt_secretKey c) signStr)
      in signature)"

text \<open>\<open>sortAndEncodeParams\<close>: the keys in the order \<open>range\<close> yields them, sorted, then one
  \<open>key=value\<close> per key written to the builder, with \<open>&\<close> before each but the first
  (index 0).\<close>

fun write_params :: "string_map \<Rightarrow> nat \<Rightarrow> string list \<Rightarrow> string \<Rightarrow> string" where
  "write_params params i [] builder = builder"
| "write_params params i (k # keys) builder =
     write_params params (Suc i) keys
       ((if i > 0 then builder @ ''&'' else builder)
          @ QueryEscape k @ ''='' @ QueryEscape (map_index params k))"

definition sortAndEncodeParams :: "string_map \<Rightarrow> string" where
  "sortAndEncodeParams params =
     (if length params = 0 then []
      else (let keys = sort (map fst params) in write_params params 0 keys []))"

text \<open>The \<open>bodyParams interface{}\<close> of \<open>sendRequest\<close>: nil, a \<open>map[string]string\<close>
  (form data), or any other value (sent as JSON).\<close>

datatype 'p xt_bodyParams = NilBody | FormData string_map | JSONBody 'p

text \<open>"Prepare Body": the body reader, the body string for the signature and the
  content type.\<close>

definition xt_prepareBody ::
  "('p, 't, 'v) go_env \<Rightarrow> 'p xt_bodyParams \<Rightarrow> xt_error + (bytes option \<times> string \<times> string)" where
  "xt_prepareBody env bodyParams =
     (case bodyParams of
        NilBody \<Rightarrow> Inr (None, [], [])
      | FormData formData \<Rightarrow>
          (let bodyStringForSig = sortAndEncodeParams formData
           in Inr (Some bodyStringForSig, bodyStringForSig, ''application/x-www-form-urlencoded''))
      | JSONBody p \<Rightarrow>
          (case json_Marshal env p of
             Inl err \<Rightarrow> Inl (XT_MarshalFailed err)
           | Inr bodyBytes \<Rightarrow> Inr (Some bodyBytes, bodyBytes, ''application/json'')))"

text \<open>"Add Authentication Headers (if private)".\<close>

definition xt_authenticate ::
  "('p, 't, 'v) go_env \<Rightarrow> xt_Client \<Rightarrow> bool \<Rightarrow> string \<Rightarrow> string \<Rightarrow> string \<Rightarrow> string \<Rightarrow>
     http_Request \<Rightarrow> xt_error + http_Request" where
  "xt_authenticate env c isPrivate meth path sortedQueryString bodyStringForSig req =
     (if isPrivate then
        (if xt_apiKey c = [] \<or> xt_secretKey c = [] then Inl XT_MissingCredentials
         else
           (let timestamp = FormatInt (time_Now_UnixMilli env);
                sigQueryPart = (if meth = ''GET'' \<or> meth = ''DELETE'' then sortedQueryString else []);
                signature = xt_generateSignature env c timestamp path sigQueryPart bodyStringForSig;
                h1 = Header_Set (req_header req) ''validate-appkey'' (xt_apiKey c);
                h2 = Header_Set h1 ''validate-timestamp'' timestamp;
                h3 = Header_Set h2 ''validate-signature'' signature
            in Inr (req\<lparr>req_header := h3\<rparr>)))
      else Inr req)"

text \<open>"Read Response Body", "Handle Errors and Unmarshal". The status code is not read.\<close>

definition xt_handleResponse ::
  "('p, 't, 'v) go_env \<Rightarrow> http_Response \<Rightarrow> 't option \<Rightarrow> xt_error + 'v option" where
  "xt_handleResponse env resp target =
     (case Body resp of
        Inl err \<Rightarrow> Inl (XT_ReadBodyFailed err)
      | Inr responseBody \<Rightarrow>
          (case json_Unmarshal_CommonResponse env responseBody of
             Inl err \<Rightarrow> Inl (XT_UnmarshalBasicFailed err responseBody)
           | Inr commonResp \<Rightarrow>
               (if ReturnCode commonResp \<noteq> 0
                then Inl (XT_APIError (ReturnCode commonResp) (MsgInfo commonResp) (Error commonResp))
                else
                  (case target of
                     Some t \<Rightarrow>
                       (case json_Unmarshal_target env t responseBody of
                          Inl err \<Rightarrow> Inl (XT_UnmarshalTargetFailed err responseBody)
                        | Inr v \<Rightarrow> Inr (Some v))
                   | None \<Rightarrow> Inr None))))"

text \<open>The part of \<open>sendRequest\<close> before "Send Request".\<close>

definition xt_buildRequest ::
  "('p, 't, 'v) go_env \<Rightarrow> xt_Client \<Rightarrow> string \<Rightarrow> string \<Rightarrow> string \<Rightarrow> string_map \<Rightarrow>
     'p xt_bodyParams \<Rightarrow> bool \<Rightarrow> xt_error + http_Request" where
  "xt_buildRequest env c meth baseURL path queryParams bodyParams isPrivate =
     (let sortedQueryString = sortAndEncodeParams queryParams;
          fullURL = (if sortedQueryString \<noteq> [] then baseURL @ path @ ''?'' @ sortedQueryString
                     else baseURL @ path)
      in case xt_prepareBody env bodyParams of
           Inl err \<Rightarrow> Inl err
         | Inr (bodyReader, bodyStringForSig, contentType) \<Rightarrow>
             (case http_NewRequestWithContext env meth fullURL bodyReader of
                Inl err \<Rightarrow> Inl (XT_CreateRequestFailed err)
              | Inr req0 \<Rightarrow>
                  (let h1 = (if contentType \<noteq> []
                             then Header_Set (req_header req0) ''Content-Type'' contentType
                             else req_header req0);
                       h2 = Header_Set h1 ''Accept'' ''application/json''
                   in xt_authenticate env c isPrivate meth path sortedQueryString
                        bodyStringForSig (req0\<lparr>req_header := h2\<rparr>))))"

definition xt_sendRequest ::
  "('p, 't, 'v) go_env \<Rightarrow> xt_Client \<Rightarrow> string \<Rightarrow> string \<Rightarrow> string \<Rightarrow> string_map \<Rightarrow>
     'p xt_bodyParams \<Rightarrow> bool \<Rightarrow> 't option \<Rightarrow> (xt_error, 'v) outcome" where
  "xt_sendRequest env c meth baseURL path queryParams bodyParams isPrivate target =
     (case xt_buildRequest env c meth baseURL path queryParams bodyParams isPrivate of
        Inl err \<Rightarrow> \<lparr>transport_calls = [], returned = Inl err\<rparr>
      | Inr req \<Rightarrow>
          (case xt_httpClient c req of
             Inl err \<Rightarrow> \<lparr>transport_calls = [req], returned = Inl (XT_SendFailed err)\<rparr>
           | Inr resp \<Rightarrow>
               \<lparr>transport_calls = [req], returned = xt_handleResponse env resp target\<rparr>))"

definition SendPublicRequest ::
  "('p, 't, 'v) go_env \<Rightarrow> xt_Client \<Rightarrow> string \<Rightarrow> string \<Rightarrow> string \<Rightarrow> string_map \<Rightarrow> 't option \<Rightarrow>
     (xt_error, 'v) outcome" where
  "SendPublicRequest env c meth baseURL path params target =
     xt_sendRequest env c meth baseURL path params NilBody False target"

definition SendPrivateRequest ::
  "('p, 't, 'v) go_env \<Rightarrow> xt_Client \<Rightarrow> string \<Rightarrow> string \<Rightarrow> string \<Rightarrow> string_map \<Rightarrow>
     'p xt_bodyParams \<Rightarrow> 't option \<Rightarrow> (xt_error, 'v) outcome" where
  "SendPrivateRequest env c meth baseURL path queryParams bodyParams target =
     xt_sendRequest env c meth baseURL path queryParams bodyParams True target"

section \<open>The specification's notions\<close>

text \<open>These definitions follow the words of the specification, not the code; the theorems
  compare the code with them. \<open>join_with\<close> joins strings with a separator between each two.\<close>

fun join_with :: "string \<Rightarrow> string list \<Rightarrow> string" where
  "join_with sep [] = []"
| "join_with sep [x] = x"
| "join_with sep (x # y # ys) = x @ sep @ join_with sep (y # ys)"

text \<open>The canonical query string: the parameters sorted by key, each key and value
  URL-encoded, written \<open>key=value\<close> and joined with \<open>&\<close>.\<close>

definition encoded_pair :: "string \<Rightarrow> string \<Rightarrow> string" where
  "encoded_pair k v = QueryEscape k @ ''='' @ QueryEscape v"

definition canonical_query :: "string_map \<Rightarrow> string" where
  "canonical_query params =
     join_with ''&'' (map (\<lambda>k. encoded_pair k (map_index params k))
                        (sorted_list_of_set (fst ` set params)))"

text \<open>The \<open>url.Values\<close> the Gate.io wrappers build from a parameter map by
  \<open>params.Set(key, value)\<close>: one value per key. \<open>encoded_pairs\<close> lists the pairs of any
  \<open>url.Values\<close> for the given keys, every value of a key in its order.\<close>

definition single_valued :: "string_map \<Rightarrow> url_Values" where
  "single_valued params = map (\<lambda>(k, v). (k, [v])) params"

definition encoded_pairs :: "url_Values \<Rightarrow> string list \<Rightarrow> string list" where
  "encoded_pairs v keys = concat (map (\<lambda>k. map (encoded_pair k) (values_index v k)) keys)"

text \<open>The Gate.io string to sign, \<open>METHOD\nPATH\nQUERY\nHASHED_BODY\nTIMESTAMP\<close>, and the
  two parts of the XT.com string to sign: \<open>validate-appkey=<key>&validate-timestamp=<ts>\<close>
  and \<open>#<path>[#<query>][#<body>]\<close>, a segment and its \<open>#\<close> left out when empty.\<close>

definition gateio_signing_string :: "string \<Rightarrow> string \<Rightarrow> string \<Rightarrow> string \<Rightarrow> string \<Rightarrow> string" where
  "gateio_signing_string meth path query hashedBody timestamp =
     join_with ''\<newline>'' [meth, path, query, hashedBody, timestamp]"

definition xt_header_part :: "string \<Rightarrow> string \<Rightarrow> string" where
  "xt_header_part key timestamp = ''validate-appkey='' @ key @ ''&validate-timestamp='' @ timestamp"

definition xt_data_part :: "string \<Rightarrow> string \<Rightarrow> string \<Rightarrow> string" where
  "xt_data_part path query body =
     ''#'' @ path @ (if query = [] then [] else ''#'' @ query) @ (if body = [] then [] else ''#'' @ body)"

text \<open>The error taxonomy of the specification, and the class of each error of the two
  dispatchers. A failure to serialise the payload or to create the request is a caller's
  error; a failure to read the response body is a transport error.\<close>

datatype error_class =
    CallerError
  | ConfigurationError
  | TransportError
  | ExchangeRejected
  | UnrecognizedErrorShape
  | DecodeError

fun gateio_error_class :: "gateio_error \<Rightarrow> error_class" where
  "gateio_error_class (Gateio_MarshalFailed err) = CallerError"
| "gateio_error_class (Gateio_CreateRequestFailed err) = CallerError"
| "gateio_error_class Gateio_MissingCredentials = ConfigurationError"
| "gateio_error_class (Gateio_SendFailed err) = TransportError"
| "gateio_error_class (Gateio_ReadBodyFailed err) = TransportError"
| "gateio_error_class (Gateio_APIError e) = ExchangeRejected"
| "gateio_error_class (Gateio_StatusError status body) = UnrecognizedErrorShape"
| "gateio_error_class (Gateio_UnmarshalTargetFailed err body) = DecodeError"

fun xt_error_class :: "xt_error \<Rightarrow> error_class" where
  "xt_error_class (XT_MarshalFailed err) = CallerError"
| "xt_error_class (XT_CreateRequestFailed err) = CallerError"
| "xt_error_class XT_MissingCredentials = ConfigurationError"
| "xt_error_class (XT_SendFailed err) = TransportError"
| "xt_error_class (XT_ReadBodyFailed err) = TransportError"
| "xt_error_class (XT_UnmarshalBasicFailed err body) = DecodeError"
| "xt_error_class (XT_APIError code msg raw) = ExchangeRejected"
| "xt_error_class (XT_UnmarshalTargetFailed err body) = DecodeError"

text \<open>The class of what a call returned; \<open>None\<close> for a nil error.\<close>

definition gateio_returned_class :: "(gateio_error, 'v) outcome \<Rightarrow> error_class option" where
  "gateio_returned_class out =
     (case returned out of Inl err \<Rightarrow> Some (gateio_error_class err) | Inr v \<Rightarrow> None)"

definition xt_returned_class :: "(xt_error, 'v) outcome \<Rightarrow> error_class option" where
  "xt_returned_class out =
     (case returned out of Inl err \<Rightarrow> Some (xt_error_class err) | Inr v \<Rightarrow> None)"

section \<open>A scripted environment for concrete calls\<close>

text \<open>Concrete calls need concrete library functions. The digests are replaced by
  functions that show their arguments, so that the string that was signed can be read off
  a signature. The JSON functions are tables: each entry is what \<open>encoding/json\<close> returns
  for that input and that Go type; an input outside the table is answered by an error.
  A payload and a target are named by the Go value or type they stand for, and what is
  decoded into the target is shown as text.\<close>

definition spy_sha512 :: "bytes \<Rightarrow> bytes" where
  "spy_sha512 b = ''sha512<'' @ b @ ''>''"

definition spy_hmac :: "string \<Rightarrow> bytes \<Rightarrow> bytes \<Rightarrow> bytes" where
  "spy_hmac name key msg = name @ ''<'' @ key @ ''|'' @ msg @ ''>''"

definition scripted_Marshal :: "string \<Rightarrow> lib_error + bytes" where
  "scripted_Marshal p =
     (if p = ''map[string]interface{}{\"size\": 1}'' then Inr ''{\"size\":1}''
      else Inl ''json: payload not scripted'')"

definition scripted_Unmarshal_APIError :: "bytes \<Rightarrow> lib_error + APIError" where
  "scripted_Unmarshal_APIError body =
     (if body = ''{\"label\":\"INVALID_PARAM\",\"message\":\"foo\"}''
      then Inr \<lparr>Label = ''INVALID_PARAM'', Message = ''foo''\<rparr>
      else if body = ''{}'' then Inr \<lparr>Label = [], Message = []\<rparr>
      else Inl ''json: body not scripted'')"

definition scripted_Unmarshal_CommonResponse :: "bytes \<Rightarrow> lib_error + CommonResponse" where
  "scripted_Unmarshal_CommonResponse body =
     (if body = ''{\"returnCode\":0,\"result\":1700000000000}''
      then Inr \<lparr>ReturnCode = 0, MsgInfo = [], Error = []\<rparr>
      else if body = ''{\"returnCode\":1,\"msgInfo\":\"bar\"}''
      then Inr \<lparr>ReturnCode = 1, MsgInfo = ''bar'', Error = []\<rparr>
      else if body = ''{\"returnCode\":1,\"msgInfo\":\"bar\",\"result\":\"soon\"}''
      then Inr \<lparr>ReturnCode = 1, MsgInfo = ''bar'', Error = []\<rparr>
      else if body = ''{\"returnCode\":0,\"result\":\"soon\"}''
      then Inr \<lparr>ReturnCode = 0, MsgInfo = [], Error = []\<rparr>
      else Inl ''json: body not scripted'')"

text \<open>The targets: \<open>*ServerTimeResult\<close> of the XT.com connector (its \<open>result\<close> is an
  \<open>int64\<close>, so a string there does not decode) and \<open>*[]Position\<close> of the Gate.io
  connector (a JSON object is not a list).\<close>

definition scripted_Unmarshal_target :: "string \<Rightarrow> bytes \<Rightarrow> lib_error + string" where
  "scripted_Unmarshal_target t body =
     (if t = ''*ServerTimeResult'' \<and> body = ''{\"returnCode\":0,\"result\":1700000000000}''
      then Inr ''ServerTimeResult{Result: 1700000000000}''
      else if t = ''*ServerTimeResult'' \<and> body = ''{\"returnCode\":1,\"msgInfo\":\"bar\",\"result\":\"soon\"}''
      then Inl ''json: cannot unmarshal string into Go struct field ServerTimeResult.result of type int64''
      else if t = ''*ServerTimeResult'' \<and> body = ''{\"returnCode\":0,\"result\":\"soon\"}''
      then Inl ''json: cannot unmarshal string into Go struct field ServerTimeResult.result of type int64''
      else if t = ''*[]Position'' \<and> body = ''[]'' then Inr ''[]Position{}''
      else if t = ''*[]Position'' \<and> body = ''{}''
      then Inl ''json: cannot unmarshal object into Go value of type []gateio.Position''
      else Inl ''json: body not scripted'')"

definition scripted_env :: "(string, string, string) go_env" where
  "scripted_env =
     \<lparr>sha512_Sum = spy_sha512,
      hmac_sha512 = spy_hmac ''hmac-sha512'',
      hmac_sha256 = spy_hmac ''hmac-sha256'',
      json_Marshal = scripted_Marshal,
      json_Unmarshal_APIError = scripted_Unmarshal_APIError,
      json_Unmarshal_CommonResponse = scripted_Unmarshal_CommonResponse,
      json_Unmarshal_target = scripted_Unmarshal_target,
      http_NewRequest_error = (\<lambda>meth url. None),
      time_Now_Unix = 1700000000,
      time_Now_UnixMilli = 1700000000000\<rparr>"

text \<open>A transport that answers every request with the same response, and one that
  fails every request.\<close>

definition scripted_transport :: "int \<Rightarrow> bytes \<Rightarrow> transport" where
  "scripted_transport status body = (\<lambda>req. Inr \<lparr>StatusCode = status, Body = Inr body\<rparr>)"

definition failing_transport :: transport where
  "failing_transport = (\<lambda>req. Inl ''dial tcp: connection refused'')"

text \<open>\<open>NewPublicOnly\<close> of the two packages: a client with empty credentials.\<close>

definition gateio_NewPublicOnly :: "transport \<Rightarrow> transport option \<Rightarrow> gateio_Client" where
  "gateio_NewPublicOnly network httpClient = gateio_NewClient network [] [] httpClient"

definition xt_NewPublicOnly :: "transport \<Rightarrow> transport option \<Rightarrow> xt_Client" where
  "xt_NewPublicOnly network httpClient = xt_NewClient network [] [] httpClient"

text \<open>Example clients over the scripted transport (the network itself is never reached:
  the default client is the failing transport), with and without credentials.\<close>

definition gateio_private_client :: "int \<Rightarrow> bytes \<Rightarrow> gateio_Client" where
  "gateio_private_client status body =
     gateio_NewClient failing_transport ''key'' ''secret'' (Some (scripted_transport status body))"

definition gateio_public_client :: "int \<Rightarrow> bytes \<Rightarrow> gateio_Client" where
  "gateio_public_client status body =
     gateio_NewPublicOnly failing_transport (Some (scripted_transport status body))"

definition xt_private_client :: "int \<Rightarrow> bytes \<Rightarrow> xt_Client" where
  "xt_private_client status body =
     xt_NewClient failing_transport ''key'' ''secret'' (Some (scripted_transport status body))"

definition xt_public_client :: "int \<Rightarrow> bytes \<Rightarrow> xt_Client" where
  "xt_public_client status body =
     xt_NewPublicOnly failing_transport (Some (scripted_transport status body))"

section \<open>Facts about the library model\<close>

lemma canonical_keys:
  "CanonicalMIMEHeaderKey ''Accept'' = ''Accept''"
  "CanonicalMIMEHeaderKey ''Content-Type'' = ''Content-Type''"
  "CanonicalMIMEHeaderKey ''KEY'' = ''Key''"
  "CanonicalMIMEHeaderKey ''Timestamp'' = ''Timestamp''"
  "CanonicalMIMEHeaderKey ''SIGN'' = ''Sign''"
  "CanonicalMIMEHeaderKey ''validate-appkey'' = ''Validate-Appkey''"
  "CanonicalMIMEHeaderKey ''validate-timestamp'' = ''Validate-Timestamp''"
  "CanonicalMIMEHeaderKey ''validate-signature'' = ''Validate-Signature''"
  "CanonicalMIMEHeaderKey ''validate-recvwindow'' = ''Validate-Recvwindow''"
  by code_simp+

lemma Header_Get_Set:
  "Header_Get (Header_Set h k v) k' =
     (if CanonicalMIMEHeaderKey k' = CanonicalMIMEHeaderKey k then v else Header_Get h k')"
  by (simp add: Header_Get_def Header_Set_def)

lemma Header_Get_empty: "Header_Get Map.empty k = []"
  by (simp add: Header_Get_def)

lemma NewRequest_fields:
  "http_NewRequestWithContext env meth url body = Inr req0 \<Longrightarrow>
   req_body req0 = body \<and> req_url req0 = url \<and> req_header req0 = Map.empty"
  by (auto simp: http_NewRequestWithContext_def split: option.splits)

section \<open>Facts about the Gate.io dispatcher\<close>

lemma gateio_calls:
  "transport_calls (gateio_sendRequest env c meth endpointPath queryParams bodyPayload target) =
     (case gateio_buildRequest env c meth endpointPath queryParams bodyPayload of
        Inl err \<Rightarrow> [] | Inr req \<Rightarrow> [req])"
  by (simp add: gateio_sendRequest_def split: sum.split)

lemma gateio_returned:
  "returned (gateio_sendRequest env c meth endpointPath queryParams bodyPayload target) =
     (case gateio_buildRequest env c meth endpointPath queryParams bodyPayload of
        Inl err \<Rightarrow> Inl err
      | Inr req \<Rightarrow>
          (case gateio_httpClient c req of
             Inl err \<Rightarrow> Inl (Gateio_SendFailed err)
           | Inr resp \<Rightarrow> gateio_handleResponse env resp target))"
  by (simp add: gateio_sendRequest_def split: sum.split)

lemma gateio_sent_iff:
  "transport_calls (gateio_sendRequest env c meth endpointPath queryParams bodyPayload target) = [req]
   \<longleftrightarrow> gateio_buildRequest env c meth endpointPath queryParams bodyPayload = Inr req"
  by (simp add: gateio_calls split: sum.split)

lemma gateio_prepareBody_wire:
  "gateio_prepareBody env bodyPayload = Inr (bodyReader, bodyBytes) \<Longrightarrow>
   (case bodyReader of None \<Rightarrow> [] | Some b \<Rightarrow> b) = bodyBytes"
  by (auto simp: gateio_prepareBody_def split: option.splits sum.splits)

lemma gateio_prepareBody_error:
  "gateio_prepareBody env bodyPayload = Inl e \<Longrightarrow> \<exists>err. e = Gateio_MarshalFailed err"
  by (auto simp: gateio_prepareBody_def split: option.splits sum.splits)

lemma gateio_authenticate_private:
  assumes "gateio_apiKey c \<noteq> []" "gateio_secretKey c \<noteq> []"
    and "gateio_authenticate env c True meth endpointPath queryString bodyBytes req2 = Inr req"
  shows "req_body req = req_body req2 \<and> req_url req = req_url req2 \<and> req_method req = req_method req2 \<and>
         Header_Get (req_header req) ''SIGN'' =
           gateio_generateSignature env c meth (apiPrefix @ endpointPath) queryString bodyBytes
             (FormatInt (time_Now_Unix env)) \<and>
         Header_Get (req_header req) ''Timestamp'' = FormatInt (time_Now_Unix env) \<and>
         Header_Get (req_header req) ''KEY'' = gateio_apiKey c"
proof -
  from assms have req: "req = req2\<lparr>req_header :=
      Header_Set (Header_Set (Header_Set (req_header req2) ''KEY'' (gateio_apiKey c))
        ''Timestamp'' (FormatInt (time_Now_Unix env)))
        ''SIGN'' (gateio_generateSignature env c meth (apiPrefix @ endpointPath) queryString bodyBytes
             (FormatInt (time_Now_Unix env)))\<rparr>"
    by (simp add: gateio_authenticate_def Let_def)
  show ?thesis
    unfolding req by (simp add: Header_Get_Set canonical_keys)
qed

lemma gateio_authenticate_never_fails:
  "gateio_authenticate env c (gateio_apiKey c \<noteq> [] \<and> gateio_secretKey c \<noteq> []) meth endpointPath
     queryString bodyBytes req2 \<noteq> Inl e"
  by (simp add: gateio_authenticate_def Let_def)

lemma gateio_buildRequest_Inr:
  assumes "gateio_buildRequest env c meth endpointPath queryParams bodyPayload = Inr req"
  shows "\<exists>bodyReader bodyBytes req0 h.
           gateio_prepareBody env bodyPayload = Inr (bodyReader, bodyBytes) \<and>
           req_body req0 = bodyReader \<and>
           gateio_authenticate env c (gateio_apiKey c \<noteq> [] \<and> gateio_secretKey c \<noteq> []) meth endpointPath
             (case queryParams of None \<Rightarrow> [] | Some v \<Rightarrow> Values_Encode v) bodyBytes
             (req0\<lparr>req_header := h\<rparr>) = Inr req"
proof (cases "gateio_prepareBody env bodyPayload")
  case (Inl err)
  with assms show ?thesis by (simp add: gateio_buildRequest_def Let_def)
next
  case (Inr p)
  obtain bodyReader bodyBytes where p: "p = (bodyReader, bodyBytes)" by (cases p)
  let ?qs = "case queryParams of None \<Rightarrow> [] | Some v \<Rightarrow> Values_Encode v"
  let ?url = "if ?qs \<noteq> [] then gateio_baseURL c @ apiPrefix @ endpointPath @ ''?'' @ ?qs
              else gateio_baseURL c @ apiPrefix @ endpointPath"
  show ?thesis
  proof (cases "http_NewRequestWithContext env meth ?url bodyReader")
    case (Inl err)
    with assms Inr p show ?thesis by (simp add: gateio_buildRequest_def Let_def)
  next
    case req0: (Inr req0)
    from req0 have "req_body req0 = bodyReader" by (simp add: NewRequest_fields)
    with assms Inr p req0 show ?thesis
      unfolding gateio_buildRequest_def Let_def by simp blast
  qed
qed

lemma gateio_buildRequest_Inl:
  assumes "gateio_buildRequest env c meth endpointPath queryParams bodyPayload = Inl e"
  shows "(\<exists>err. e = Gateio_MarshalFailed err) \<or> (\<exists>err. e = Gateio_CreateRequestFailed err)"
proof (cases "gateio_prepareBody env bodyPayload")
  case (Inl err)
  with assms have "e = err" by (simp add: gateio_buildRequest_def Let_def)
  with Inl show ?thesis using gateio_prepareBody_error by blast
next
  case (Inr p)
  obtain bodyReader bodyBytes where p: "p = (bodyReader, bodyBytes)" by (cases p)
  let ?qs = "case queryParams of None \<Rightarrow> [] | Some v \<Rightarrow> Values_Encode v"
  let ?url = "if ?qs \<noteq> [] then gateio_baseURL c @ apiPrefix @ endpointPath @ ''?'' @ ?qs
              else gateio_baseURL c @ apiPrefix @ endpointPath"
  show ?thesis
  proof (cases "http_NewRequestWithContext env meth ?url bodyReader")
    case (Inl err)
    with assms Inr p show ?thesis by (auto simp: gateio_buildRequest_def Let_def)
  next
    case req0: (Inr req0)
    from assms Inr p req0 show ?thesis
      unfolding gateio_buildRequest_def Let_def
      by (simp add: gateio_authenticate_never_fails)
  qed
qed

lemma gateio_handleResponse_not_missing:
  "gateio_handleResponse env resp target \<noteq> Inl Gateio_MissingCredentials"
  by (simp add: gateio_handleResponse_def split: sum.split option.split)

lemma gateio_message_not_missing:
  "e \<noteq> Gateio_MissingCredentials \<Longrightarrow>
   gateio_error_message e \<noteq> ''API key and secret key must be provided for private endpoints''"
  by (cases e) simp_all

section \<open>Facts about the query encoders\<close>

lemma join_with_Cons: "join_with sep (x # xs) = (if xs = [] then x else x @ sep @ join_with sep xs)"
  by (cases xs) simp_all

lemma join_with_append:
  "join_with sep (xs @ ys) =
     (if xs = [] then join_with sep ys else if ys = [] then join_with sep xs
      else join_with sep xs @ sep @ join_with sep ys)"
  by (induction xs) (auto simp: join_with_Cons)

lemma join_with_eq_Nil: "(\<forall>x \<in> set xs. x \<noteq> []) \<Longrightarrow> join_with sep xs = [] \<longleftrightarrow> xs = []"
  by (cases xs) (auto simp: join_with_Cons)

lemma write_params_join:
  "write_params params i keys builder =
     (if keys = [] then builder
      else (if i > 0 then builder @ ''&'' else builder)
             @ join_with ''&'' (map (\<lambda>k. encoded_pair k (map_index params k)) keys))"
  by (induction keys arbitrary: i builder) (auto simp: join_with_Cons encoded_pair_def)

lemma sorted_keys: "distinct (map fst params) \<Longrightarrow> sort (map fst params) = sorted_list_of_set (fst ` set params)"
  by (metis distinct_remdups_id list.set_map sorted_list_of_set_sort_remdups)

lemma sortAndEncodeParams_canonical:
  "distinct (map fst params) \<Longrightarrow> sortAndEncodeParams params = canonical_query params"
proof (cases "params = []")
  case True
  then show ?thesis by (simp add: sortAndEncodeParams_def canonical_query_def)
next
  case False
  assume d: "distinct (map fst params)"
  from False have "sort (map fst params) \<noteq> []"
    by (metis length_0_conv length_map length_sort)
  with False show ?thesis
    unfolding sortAndEncodeParams_def Let_def write_params_join canonical_query_def sorted_keys[OF d]
    by simp
qed

lemma encode_values_join:
  "encode_values (QueryEscape k) vs buf =
     (if vs = [] then buf
      else (if buf = [] then [] else buf @ ''&'') @ join_with ''&'' (map (encoded_pair k) vs))"
  by (induction vs arbitrary: buf) (auto simp: join_with_Cons encoded_pair_def)

lemma encoded_pair_nonempty: "encoded_pair k x \<noteq> []"
  by (simp add: encoded_pair_def)

lemma encode_keys_join:
  "encode_keys v keys buf =
     (if encoded_pairs v keys = [] then buf
      else (if buf = [] then [] else buf @ ''&'') @ join_with ''&'' (encoded_pairs v keys))"
proof (induction keys arbitrary: buf)
  case Nil
  then show ?case by (simp add: encoded_pairs_def)
next
  case (Cons k keys)
  have ne: "\<And>xs. xs \<noteq> [] \<Longrightarrow> join_with ''&'' (map (encoded_pair k) xs) \<noteq> []"
    by (subst join_with_eq_Nil) (auto simp: encoded_pair_nonempty)
  have ev: "encode_values (QueryEscape k) (values_index v k) buf =
     (if values_index v k = [] then buf
      else (if buf = [] then [] else buf @ ''&'') @ join_with ''&'' (map (encoded_pair k) (values_index v k)))"
    by (rule encode_values_join)
  have split: "encoded_pairs v (k # keys) = map (encoded_pair k) (values_index v k) @ encoded_pairs v keys"
    by (simp add: encoded_pairs_def)
  show ?case
    unfolding encode_keys.simps Cons.IH ev split
    by (auto simp: join_with_append ne)
qed

lemma Values_Encode_pairs:
  "Values_Encode v = join_with ''&'' (encoded_pairs v (sort (map fst v)))"
proof (cases "v = []")
  case True
  then show ?thesis by (simp add: Values_Encode_def encoded_pairs_def)
next
  case False
  then show ?thesis
    unfolding Values_Encode_def encode_keys_join by simp
qed

lemma single_valued_keys: "map fst (single_valued params) = map fst params"
  by (induction params) (auto simp: single_valued_def)

lemma single_valued_index:
  "k \<in> fst ` set params \<Longrightarrow> values_index (single_valued params) k = [map_index params k]"
  by (induction params) (auto simp: single_valued_def values_index_def map_index_def)

lemma single_valued_pairs:
  "set keys \<subseteq> fst ` set params \<Longrightarrow>
   encoded_pairs (single_valued params) keys = map (\<lambda>k. encoded_pair k (map_index params k)) keys"
  by (induction keys) (auto simp: encoded_pairs_def single_valued_index)

lemma Values_Encode_canonical:
  assumes "distinct (map fst params)"
  shows "Values_Encode (single_valued params) = canonical_query params"
proof -
  have "set (sort (map fst params)) \<subseteq> fst ` set params" by simp
  then show ?thesis
    unfolding Values_Encode_pairs single_valued_keys canonical_query_def sorted_keys[OF assms, symmetric]
    by (rule arg_cong[OF single_valued_pairs])
qed

lemma canonical_query_cong:
  assumes "map_of params' = map_of params"
  shows "canonical_query params' = canonical_query params"
proof -
  have "fst ` set params' = fst ` set params"
    using assms by (metis dom_map_of_conv_image_fst)
  moreover have "map_index params' = map_index params"
    using assms by (simp add: map_index_def fun_eq_iff)
  ultimately show ?thesis by (simp add: canonical_query_def)
qed

section \<open>Facts about the XT.com dispatcher\<close>

lemma xt_calls:
  "transport_calls (xt_sendRequest env c meth baseURL path queryParams bodyParams isPrivate target) =
     (case xt_buildRequest env c meth baseURL path queryParams bodyParams isPrivate of
        Inl err \<Rightarrow> [] | Inr req \<Rightarrow> [req])"
  by (simp add: xt_sendRequest_def split: sum.split)

lemma xt_returned:
  "returned (xt_sendRequest env c meth baseURL path queryParams bodyParams isPrivate target) =
     (case xt_buildRequest env c meth baseURL path queryParams bodyParams isPrivate of
        Inl err \<Rightarrow> Inl err
      | Inr req \<Rightarrow>
          (case xt_httpClient c req of
             Inl err \<Rightarrow> Inl (XT_SendFailed err)
           | Inr resp \<Rightarrow> xt_handleResponse env resp target))"
  by (simp add: xt_sendRequest_def split: sum.split)

lemma xt_sent_iff:
  "transport_calls (xt_sendRequest env c meth baseURL path queryParams bodyParams isPrivate target) = [req]
   \<longleftrightarrow> xt_buildRequest env c meth baseURL path queryParams bodyParams isPrivate = Inr req"
  by (simp add: xt_calls split: sum.split)

lemma xt_prepareBody_wire:
  "xt_prepareBody env bodyParams = Inr (bodyReader, bodyStringForSig, contentType) \<Longrightarrow>
   (case bodyReader of None \<Rightarrow> [] | Some b \<Rightarrow> b) = bodyStringForSig"
  by (auto simp: xt_prepareBody_def Let_def split: xt_bodyParams.splits sum.splits)

lemma xt_prepareBody_body:
  "xt_prepareBody env bodyParams = Inr (bodyReader, bodyStringForSig, contentType) \<Longrightarrow>
   (case bodyParams of
      NilBody \<Rightarrow> bodyReader = None \<and> bodyStringForSig = []
    | FormData formData \<Rightarrow> bodyReader = Some (sortAndEncodeParams formData)
    | JSONBody p \<Rightarrow> (\<exists>bodyBytes. json_Marshal env p = Inr bodyBytes \<and> bodyReader = Some bodyBytes))"
  by (auto simp: xt_prepareBody_def Let_def split: xt_bodyParams.splits sum.splits)

lemma xt_authenticate_private:
  assumes "xt_apiKey c \<noteq> []" "xt_secretKey c \<noteq> []"
    and "xt_authenticate env c True meth path sortedQueryString bodyStringForSig req2 = Inr req"
  shows "req_body req = req_body req2 \<and> req_url req = req_url req2 \<and> req_method req = req_method req2 \<and>
         Header_Get (req_header req) ''validate-signature'' =
           xt_generateSignature env c (FormatInt (time_Now_UnixMilli env)) path
             (if meth = ''GET'' \<or> meth = ''DELETE'' then sortedQueryString else []) bodyStringForSig \<and>
         Header_Get (req_header req) ''validate-timestamp'' = FormatInt (time_Now_UnixMilli env) \<and>
         Header_Get (req_header req) ''validate-appkey'' = xt_apiKey c"
proof -
  from assms have req: "req = req2\<lparr>req_header :=
      Header_Set (Header_Set (Header_Set (req_header req2) ''validate-appkey'' (xt_apiKey c))
        ''validate-timestamp'' (FormatInt (time_Now_UnixMilli env)))
        ''validate-signature'' (xt_generateSignature env c (FormatInt (time_Now_UnixMilli env)) path
             (if meth = ''GET'' \<or> meth = ''DELETE'' then sortedQueryString else []) bodyStringForSig)\<rparr>"
    by (simp add: xt_authenticate_def Let_def)
  show ?thesis
    unfolding req by (simp add: Header_Get_Set canonical_keys)
qed

lemma xt_authenticate_missing:
  "xt_apiKey c = [] \<or> xt_secretKey c = [] \<Longrightarrow>
   xt_authenticate env c True meth path sortedQueryString bodyStringForSig req2 = Inl XT_MissingCredentials"
  by (simp add: xt_authenticate_def)

lemma xt_authenticate_dom:
  "xt_authenticate env c isPrivate meth path sortedQueryString bodyStringForSig req2 = Inr req \<Longrightarrow>
   dom (req_header req) \<subseteq>
     dom (req_header req2) \<union> {''Validate-Appkey'', ''Validate-Timestamp'', ''Validate-Signature''}"
  by (auto simp: xt_authenticate_def Let_def Header_Set_def canonical_keys split: if_splits)

lemma xt_buildRequest_Inr:
  assumes "xt_buildRequest env c meth baseURL path queryParams bodyParams isPrivate = Inr req"
  shows "\<exists>bodyReader bodyStringForSig contentType req0 h.
           xt_prepareBody env bodyParams = Inr (bodyReader, bodyStringForSig, contentType) \<and>
           req_body req0 = bodyReader \<and> dom h \<subseteq> {''Content-Type'', ''Accept''} \<and>
           xt_authenticate env c isPrivate meth path (sortAndEncodeParams queryParams)
             bodyStringForSig (req0\<lparr>req_header := h\<rparr>) = Inr req"
proof (cases "xt_prepareBody env bodyParams")
  case (Inl err)
  with assms show ?thesis by (simp add: xt_buildRequest_def Let_def)
next
  case (Inr p)
  obtain bodyReader bodyStringForSig contentType
    where p: "p = (bodyReader, bodyStringForSig, contentType)" by (cases p)
  let ?qs = "sortAndEncodeParams queryParams"
  let ?url = "if ?qs \<noteq> [] then baseURL @ path @ ''?'' @ ?qs else baseURL @ path"
  show ?thesis
  proof (cases "http_NewRequestWithContext env meth ?url bodyReader")
    case (Inl err)
    with assms Inr p show ?thesis by (simp add: xt_buildRequest_def Let_def)
  next
    case req0: (Inr req0)
    let ?h = "Header_Set (if contentType \<noteq> []
                then Header_Set (req_header req0) ''Content-Type'' contentType
                else req_header req0) ''Accept'' ''application/json''"
    from req0 have f: "req_body req0 = bodyReader" "req_header req0 = Map.empty"
      by (simp_all add: NewRequest_fields)
    have d: "dom ?h \<subseteq> {''Content-Type'', ''Accept''}"
      by (auto simp: f Header_Set_def canonical_keys split: if_splits)
    from assms Inr p req0
    have "xt_authenticate env c isPrivate meth path ?qs bodyStringForSig (req0\<lparr>req_header := ?h\<rparr>) = Inr req"
      unfolding xt_buildRequest_def Let_def by simp
    with Inr p f d show ?thesis by blast
  qed
qed

lemma xt_buildRequest_missing:
  assumes "xt_apiKey c = [] \<or> xt_secretKey c = []"
  shows "\<exists>e. xt_buildRequest env c meth baseURL path queryParams bodyParams True = Inl e \<and>
             (e = XT_MissingCredentials \<or> (\<exists>err. e = XT_MarshalFailed err)
                \<or> (\<exists>err. e = XT_CreateRequestFailed err))"
proof (cases "xt_prepareBody env bodyParams")
  case (Inl err)
  then have "\<exists>err'. err = XT_MarshalFailed err'"
    by (auto simp: xt_prepareBody_def Let_def split: xt_bodyParams.splits sum.splits)
  with Inl show ?thesis by (auto simp: xt_buildRequest_def Let_def)
next
  case (Inr p)
  obtain bodyReader bodyStringForSig contentType
    where p: "p = (bodyReader, bodyStringForSig, contentType)" by (cases p)
  let ?qs = "sortAndEncodeParams queryParams"
  let ?url = "if ?qs \<noteq> [] then baseURL @ path @ ''?'' @ ?qs else baseURL @ path"
  show ?thesis
  proof (cases "http_NewRequestWithContext env meth ?url bodyReader")
    case (Inl err)
    with Inr p show ?thesis by (auto simp: xt_buildRequest_def Let_def)
  next
    case req0: (Inr req0)
    with Inr p assms show ?thesis
      unfolding xt_buildRequest_def Let_def by (simp add: xt_authenticate_missing)
  qed
qed

section \<open>The claims\<close>

text \<open>
  C10. In the Gate.io client the missing-credentials branch of \<open>sendRequest\<close> cannot be
  reached: whatever the client, the arguments, the transport and the library do, the call
  never returns that error, by its value or by its message. The authentication block runs
  only when \<open>isPrivate\<close> holds, and \<open>isPrivate\<close> is "both keys are non-empty".
\<close>

theorem gateio_missing_credentials_unreachable:
  "returned (gateio_sendRequest env c meth endpointPath queryParams bodyPayload target)
     \<noteq> Inl Gateio_MissingCredentials \<and>
   (case returned (gateio_sendRequest env c meth endpointPath queryParams bodyPayload target) of
      Inl err \<Rightarrow> gateio_error_message err | Inr v \<Rightarrow> [])
     \<noteq> ''API key and secret key must be provided for private endpoints''"
proof -
  let ?r = "returned (gateio_sendRequest env c meth endpointPath queryParams bodyPayload target)"
  have a: "?r \<noteq> Inl Gateio_MissingCredentials"
  proof (cases "gateio_buildRequest env c meth endpointPath queryParams bodyPayload")
    case (Inl e)
    then show ?thesis
      using gateio_buildRequest_Inl[OF Inl] by (auto simp: gateio_returned)
  next
    case (Inr req)
    then show ?thesis
      by (simp add: gateio_returned gateio_handleResponse_not_missing split: sum.split)
  qed
  show ?thesis
  proof (cases ?r)
    case (Inl e)
    with a have "e \<noteq> Gateio_MissingCredentials" by simp
    with Inl a show ?thesis by (simp add: gateio_message_not_missing)
  next
    case (Inr v)
    with a show ?thesis by simp
  qed
qed

text \<open>
  C6. The encoded query string of a parameter map lists the parameters sorted by key,
  each key and value URL-encoded, as \<open>key=value\<close> pairs joined with \<open>&\<close>: this is
  \<open>canonical_query\<close>. Both encoders compute it: \<open>sortAndEncodeParams\<close> of the XT.com
  client, and \<open>url.Values.Encode\<close> on the values the Gate.io wrappers build with
  \<open>params.Set\<close>. The same entries yielded by \<open>range\<close> in another order give the same
  string, and \<open>{b: "2", a: "1"}\<close> gives \<open>a=1&b=2\<close>. A map has no key twice.
\<close>

theorem canonical_query_sorted_by_key:
  assumes "distinct (map fst params)" and "distinct (map fst params')" and "set params' = set params"
  shows "sortAndEncodeParams params = canonical_query params \<and>
         Values_Encode (single_valued params) = canonical_query params \<and>
         sortAndEncodeParams params' = sortAndEncodeParams params \<and>
         Values_Encode (single_valued params') = Values_Encode (single_valued params) \<and>
         sortAndEncodeParams [(''b'', ''2''), (''a'', ''1'')] = ''a=1&b=2'' \<and>
         Values_Encode (single_valued [(''b'', ''2''), (''a'', ''1'')]) = ''a=1&b=2''"
proof -
  have m: "map_of params' = map_of params"
    using assms by (simp add: map_of_inject_set)
  have c: "canonical_query params' = canonical_query params"
    by (rule canonical_query_cong[OF m])
  have x: "sortAndEncodeParams params = canonical_query params"
    "sortAndEncodeParams params' = canonical_query params'"
    using assms by (simp_all add: sortAndEncodeParams_canonical)
  have g: "Values_Encode (single_valued params) = canonical_query params"
    "Values_Encode (single_valued params') = canonical_query params'"
    using assms by (simp_all add: Values_Encode_canonical)
  have e1: "sortAndEncodeParams [(''b'', ''2''), (''a'', ''1'')] = ''a=1&b=2''"
    by (simp add: sortAndEncodeParams_def map_index_def QueryEscape_def escape_byte_def
        shouldEscape_def)
  have e2: "Values_Encode (single_valued [(''b'', ''2''), (''a'', ''1'')]) = ''a=1&b=2''"
    by (simp add: Values_Encode_def single_valued_def values_index_def QueryEscape_def
        escape_byte_def shouldEscape_def)
  from x g c e1 e2 show ?thesis by simp
qed

text \<open>An instance: the parameters \<open>symbol\<close> and \<open>coin\<close> in the two orders.\<close>

theorem canonical_query_sorted_by_key_witness:
  "distinct (map fst [(''symbol'', ''btc_usdt''), (''coin'', ''a b'')]) \<and>
   distinct (map fst [(''coin'', ''a b''), (''symbol'', ''btc_usdt'')]) \<and>
   set [(''coin'', ''a b''), (''symbol'', ''btc_usdt'')] = set [(''symbol'', ''btc_usdt''), (''coin'', ''a b'')] \<and>
   sortAndEncodeParams [(''coin'', ''a b''), (''symbol'', ''btc_usdt'')] =
     sortAndEncodeParams [(''symbol'', ''btc_usdt''), (''coin'', ''a b'')] \<and>
   sortAndEncodeParams [(''symbol'', ''btc_usdt''), (''coin'', ''a b'')] = ''coin=a+b&symbol=btc_usdt''"
proof -
  have d1: "distinct (map fst [(''symbol'', ''btc_usdt''), (''coin'', ''a b'')])" by simp
  have d2: "distinct (map fst [(''coin'', ''a b''), (''symbol'', ''btc_usdt'')])" by simp
  have s: "set [(''coin'', ''a b''), (''symbol'', ''btc_usdt'')] =
           set [(''symbol'', ''btc_usdt''), (''coin'', ''a b'')]" by auto
  have v: "sortAndEncodeParams [(''symbol'', ''btc_usdt''), (''coin'', ''a b'')] = ''coin=a+b&symbol=btc_usdt''"
    by (simp add: sortAndEncodeParams_def map_index_def QueryEscape_def escape_byte_def
        shouldEscape_def)
  from canonical_query_sorted_by_key[OF d1 d2 s] d1 d2 s v show ?thesis by simp
qed

end
